theory Spec2Isabelle
  imports Complex_Main "HOL-Library.Sublist"
begin

section \<open>Python values\<close>

text \<open>
  A Python \<open>str\<close> is a sequence of Unicode code points: \<open>len\<close>, slicing and \<open>in\<close> count
  code points, so a string is modelled as the list of its code points. \<open>lit\<close> turns an
  ASCII literal of the source into that representation.
\<close>

type_synonym pystr = "nat list"

definition lit :: "string \<Rightarrow> pystr" where
  "lit s = map of_char s"

text \<open>
  A Python \<open>float\<close>. The JSON decoder of the standard library also accepts the tokens
  \<open>NaN\<close>, \<open>Infinity\<close> and \<open>-Infinity\<close>. A finite float is represented by the real number
  it stands for (\<open>0.0\<close> and \<open>-0.0\<close> both by 0); the code does no arithmetic on floats,
  so rounding is not modelled.
\<close>

datatype pyfloat = Finite real | PosInf | NegInf | NaN

text \<open>
  The objects a JSON decoder returns: \<open>None\<close>, \<open>bool\<close>, \<open>int\<close>, \<open>float\<close>, \<open>str\<close>,
  \<open>list\<close> and \<open>dict\<close> with \<open>str\<close> keys. A dict is an association list, looked up with
  \<open>map_of\<close>.
\<close>

datatype pyval =
    PyNone
  | PyBool bool
  | PyInt int
  | PyFloat pyfloat
  | PyStr pystr
  | PyList "pyval list"
  | PyDict "(pystr \<times> pyval) list"

text \<open>The HTTP response object: \<open>json_value\<close> is what \<open>response.json()\<close> returns,
  \<open>None\<close> when the body does not decode and the call raises.\<close>

record response =
  status_code :: int
  json_value :: "pyval option"

text \<open>The exceptions that can arise inside the \<open>try\<close> block. All of them are instances
  of \<open>Exception\<close>; only \<open>HTTPError\<close> is an instance of \<open>requests.exceptions.HTTPError\<close>.\<close>

datatype exn =
    HTTPError response
  | RequestException pystr
  | JSONDecodeError
  | TypeError
  | KeyError pyval
  | IndexError

text \<open>Sequencing inside a \<open>try\<close> block: the first exception raised ends the block.\<close>

definition try_then :: "'e + 'a \<Rightarrow> ('a \<Rightarrow> 'e + 'b) \<Rightarrow> 'e + 'b" where
  "try_then m f = (case m of Inl e \<Rightarrow> Inl e | Inr x \<Rightarrow> f x)"

text \<open>Truth value of an object, as \<open>if\<close> and \<open>and\<close> test it.\<close>

fun truthy :: "pyval \<Rightarrow> bool" where
  "truthy PyNone = False"
| "truthy (PyBool b) = b"
| "truthy (PyInt n) = (n \<noteq> 0)"
| "truthy (PyFloat f) = (f \<noteq> Finite 0)"
| "truthy (PyStr s) = (s \<noteq> [])"
| "truthy (PyList xs) = (xs \<noteq> [])"
| "truthy (PyDict kvs) = (kvs \<noteq> [])"

text \<open>\<open>k in v\<close> for a string \<open>k\<close>: key membership in a dict, element membership in a
  list, substring test in a string, \<open>TypeError\<close> for the objects that are not iterable.\<close>

fun py_in :: "pystr \<Rightarrow> pyval \<Rightarrow> exn + bool" where
  "py_in k (PyDict kvs) = Inr (k \<in> set (map fst kvs))"
| "py_in k (PyList xs) = Inr (PyStr k \<in> set xs)"
| "py_in k (PyStr s) = Inr (sublist k s)"
| "py_in k PyNone = Inl TypeError"
| "py_in k (PyBool b) = Inl TypeError"
| "py_in k (PyInt n) = Inl TypeError"
| "py_in k (PyFloat f) = Inl TypeError"

text \<open>\<open>v[k]\<close> for a string \<open>k\<close>: only a dict can be subscripted by a string.\<close>

fun getitem_str :: "pyval \<Rightarrow> pystr \<Rightarrow> exn + pyval" where
  "getitem_str (PyDict kvs) k =
     (case map_of kvs k of Some v \<Rightarrow> Inr v | None \<Rightarrow> Inl (KeyError (PyStr k)))"
| "getitem_str (PyList xs) k = Inl TypeError"
| "getitem_str (PyStr s) k = Inl TypeError"
| "getitem_str PyNone k = Inl TypeError"
| "getitem_str (PyBool b) k = Inl TypeError"
| "getitem_str (PyInt n) k = Inl TypeError"
| "getitem_str (PyFloat f) k = Inl TypeError"

text \<open>\<open>v[i]\<close> for an integer \<open>i\<close>; a negative index counts from the end. A decoded dict
  has string keys only, so an integer is never one of its keys.\<close>

definition index_of :: "'a list \<Rightarrow> int \<Rightarrow> nat option" where
  "index_of xs i =
     (let n = int (length xs); j = (if i < 0 then n + i else i)
      in if 0 \<le> j \<and> j < n then Some (nat j) else None)"

fun getitem_int :: "pyval \<Rightarrow> int \<Rightarrow> exn + pyval" where
  "getitem_int (PyList xs) i =
     (case index_of xs i of Some j \<Rightarrow> Inr (xs ! j) | None \<Rightarrow> Inl IndexError)"
| "getitem_int (PyStr s) i =
     (case index_of s i of Some j \<Rightarrow> Inr (PyStr [s ! j]) | None \<Rightarrow> Inl IndexError)"
| "getitem_int (PyDict kvs) i = Inl (KeyError (PyInt i))"
| "getitem_int PyNone i = Inl TypeError"
| "getitem_int (PyBool b) i = Inl TypeError"
| "getitem_int (PyInt n) i = Inl TypeError"
| "getitem_int (PyFloat f) i = Inl TypeError"

text \<open>\<open>str(n)\<close> for a natural number: its decimal digits.\<close>

fun str_nat :: "nat \<Rightarrow> pystr" where
  "str_nat n = (if n < 10 then [48 + n] else str_nat (n div 10) @ [48 + n mod 10])"

declare str_nat.simps [simp del]

section \<open>The outside world\<close>

text \<open>
  \<open>requests_post w p i\<close> is the outcome of the call of \<open>requests.post\<close> made in iteration
  \<open>i\<close> of the retry loop with the prompt \<open>p\<close> in the payload (URL, headers, model and
  temperature are constants): \<open>Inl d\<close> when the call raises, \<open>d\<close> being the text of the
  exception, \<open>Inr r\<close> when it returns the response \<open>r\<close>.
  \<open>decode w s\<close> is what \<open>json.loads(s)\<close> returns, \<open>None\<close> when it raises.
\<close>

record world =
  requests_post :: "pystr \<Rightarrow> nat \<Rightarrow> pystr + response"
  decode :: "pystr \<Rightarrow> pyval option"

text \<open>\<open>response.raise_for_status()\<close> raises for the 4xx and 5xx status codes.\<close>

definition raise_for_status :: "response \<Rightarrow> exn + unit" where
  "raise_for_status r =
     (if 400 \<le> status_code r \<and> status_code r < 600 then Inl (HTTPError r) else Inr ())"

definition response_json :: "response \<Rightarrow> exn + pyval" where
  "response_json r = (case json_value r of None \<Rightarrow> Inl JSONDecodeError | Some v \<Rightarrow> Inr v)"

text \<open>\<open>json.loads(v)\<close>: \<open>TypeError\<close> unless \<open>v\<close> is a string.\<close>

fun json_loads :: "(pystr \<Rightarrow> pyval option) \<Rightarrow> pyval \<Rightarrow> exn + pyval" where
  "json_loads dec (PyStr s) = (case dec s of None \<Rightarrow> Inl JSONDecodeError | Some v \<Rightarrow> Inr v)"
| "json_loads dec PyNone = Inl TypeError"
| "json_loads dec (PyBool b) = Inl TypeError"
| "json_loads dec (PyInt n) = Inl TypeError"
| "json_loads dec (PyFloat f) = Inl TypeError"
| "json_loads dec (PyList xs) = Inl TypeError"
| "json_loads dec (PyDict kvs) = Inl TypeError"

text \<open>What the user and the clock see: the requests sent, the messages shown with
  \<open>st.warning\<close> and \<open>st.error\<close> (\<open>StErrorExn p e\<close> is the message \<open>p\<close> followed by the
  text of the exception \<open>e\<close>), the calls of \<open>time.sleep\<close> in seconds, and \<open>st.stop()\<close>.\<close>

datatype event =
    Post pystr
  | StWarning pystr
  | StError pystr
  | StErrorExn pystr exn
  | Sleep nat
  | StStop

section \<open>classify_text_with_api\<close>

definition build_prompt :: "pystr \<Rightarrow> pystr" where
  \<open>build_prompt text =
     lit ''\<newline>    You are an expert fact-checker. Analyze the following text and classify it as "True", "Fake", or "Unverifiable".\<newline>''
   @ lit ''    Provide a prediction and two confidence scores (from 0.0 to 1.0) for "real" and "fake" news.\<newline>''
   @ lit ''    \<newline>''
   @ lit ''    Text to analyze: "'' @ text @ lit ''"\<newline>''
   @ lit ''\<newline>''
   @ lit ''    Please respond with a JSON object in the following format. Ensure the response is only the JSON object, with no extra text or markdown formatting.\<newline>''
   @ lit ''    {\<newline>''
   @ lit ''      "prediction": "True" | "Fake" | "Unverifiable",\<newline>''
   @ lit ''      "real_confidence": number,\<newline>''
   @ lit ''      "fake_confidence": number\<newline>''
   @ lit ''    }\<newline>''
   @ lit ''\<newline>''
   @ lit ''    If you cannot confidently classify the text (e.g., it's not a news statement, is too short, or is an opinion), classify it as "Unverifiable".\<newline>''
   @ lit ''    ''\<close>

definition error_result :: pyval where
  "error_result =
     PyDict [(lit ''prediction'', PyStr (lit ''Error'')),
             (lit ''real_confidence'', PyFloat (Finite 0)),
             (lit ''fake_confidence'', PyFloat (Finite 0))]"

text \<open>The condition \<open>result and "choices" in result and result["choices"]\<close>, evaluated
  from left to right; \<open>and\<close> stops at the first operand that is false.\<close>

definition has_choices :: "pyval \<Rightarrow> exn + bool" where
  "has_choices result =
     (if \<not> truthy result then Inr False
      else try_then (py_in (lit ''choices'') result) (\<lambda>present.
        if \<not> present then Inr False
        else try_then (getitem_str result (lit ''choices'')) (\<lambda>choices.
          Inr (truthy choices))))"

text \<open>\<open>result["choices"][0]["message"]["content"]\<close>\<close>

definition response_content :: "pyval \<Rightarrow> exn + pyval" where
  "response_content result =
     try_then (getitem_str result (lit ''choices'')) (\<lambda>choices.
     try_then (getitem_int choices 0) (\<lambda>choice.
     try_then (getitem_str choice (lit ''message'')) (\<lambda>message.
     getitem_str message (lit ''content''))))"

text \<open>The \<open>if\<close> statement on the decoded body, with its two \<open>return\<close> statements:
  the value is returned together with the messages shown before returning.\<close>

definition read_result :: "world \<Rightarrow> pyval \<Rightarrow> exn + (event list \<times> pyval)" where
  "read_result w result =
     try_then (has_choices result) (\<lambda>ok.
       if ok then
         try_then (response_content result) (\<lambda>content.
         try_then (json_loads (decode w) content) (\<lambda>v. Inr ([], v)))
       else
         Inr ([StError (lit ''API response was empty or malformed.'')], error_result))"

text \<open>The body of the \<open>try\<close> statement. It ends by raising (\<open>Inl\<close>) or by one of the
  two \<open>return\<close> statements (\<open>Inr\<close>).\<close>

definition try_block :: "world \<Rightarrow> pystr \<Rightarrow> nat \<Rightarrow> exn + (event list \<times> pyval)" where
  "try_block w prompt i =
     try_then (case requests_post w prompt i of
                 Inl d \<Rightarrow> Inl (RequestException d) | Inr r \<Rightarrow> Inr r) (\<lambda>response.
     try_then (raise_for_status response) (\<lambda>_.
     try_then (response_json response) (\<lambda>result.
     read_result w result)))"

text \<open>How one iteration of the loop ends.\<close>

datatype flow = Return pyval | Break | Continue

text \<open>The two \<open>except\<close> clauses, in the order of the source: the first catches
  \<open>HTTPError\<close>, the second every other exception.\<close>

fun handler :: "nat \<Rightarrow> exn \<Rightarrow> event list \<times> flow" where
  "handler i (HTTPError r) =
     (if status_code r = 429 then
        ([StWarning (lit ''Rate limit exceeded. Retrying in '' @ str_nat (2 ^ (i + 1))
                     @ lit '' seconds...''),
          Sleep (2 ^ (i + 1))], Continue)
      else ([StErrorExn (lit ''HTTP error occurred: '') (HTTPError r)], Break))"
| "handler i e = ([StErrorExn (lit ''Error calling the Groq API: '') e], Break)"

definition attempt :: "world \<Rightarrow> pystr \<Rightarrow> nat \<Rightarrow> event list \<times> flow" where
  "attempt w prompt i =
     (case try_block w prompt i of
        Inr (evs, v) \<Rightarrow> (Post prompt # evs, Return v)
      | Inl e \<Rightarrow> (case handler i e of (evs, f) \<Rightarrow> (Post prompt # evs, f)))"

text \<open>The \<open>for\<close> loop over the values of \<open>range(retries)\<close> still to come, followed by
  the \<open>return\<close> after the loop, reached when the loop is left by \<open>break\<close> or runs out.\<close>

fun for_loop :: "world \<Rightarrow> pystr \<Rightarrow> nat list \<Rightarrow> event list \<times> pyval" where
  "for_loop w prompt [] = ([], error_result)"
| "for_loop w prompt (i # rest) =
     (case attempt w prompt i of
        (evs, Return v) \<Rightarrow> (evs, v)
      | (evs, Break) \<Rightarrow> (evs, error_result)
      | (evs, Continue) \<Rightarrow>
          (case for_loop w prompt rest of (evs', v) \<Rightarrow> (evs @ evs', v)))"

definition retries :: nat where
  "retries = 3"

definition classify_text_with_api :: "world \<Rightarrow> pystr \<Rightarrow> event list \<times> pyval" where
  "classify_text_with_api w text = for_loop w (build_prompt text) [0..<retries]"

section \<open>extract_text_from_url\<close>

text \<open>
  The \<open>newspaper\<close> library, over the article object \<open>'a\<close>: the constructor,
  \<open>download()\<close> and \<open>parse()\<close> either raise (\<open>Inl d\<close>, \<open>d\<close> being \<open>str(e)\<close> of the
  exception) or give the article object in its next state; \<open>article_text\<close> reads the
  attribute \<open>text\<close>.
\<close>

record 'a newspaper =
  Article :: "pystr \<Rightarrow> pystr + 'a"
  download :: "'a \<Rightarrow> pystr + 'a"
  parse :: "'a \<Rightarrow> pystr + 'a"
  article_text :: "'a \<Rightarrow> pystr"

text \<open>The three library calls of the \<open>try\<close> block, in the order of the source.\<close>

definition fetch_article :: "'a newspaper \<Rightarrow> pystr \<Rightarrow> pystr + 'a" where
  "fetch_article lib url =
     try_then (Article lib url) (\<lambda>article.
     try_then (download lib article) (\<lambda>article.
     parse lib article))"

definition extract_text_from_url :: "'a newspaper \<Rightarrow> pystr \<Rightarrow> pystr" where
  "extract_text_from_url lib url =
     (case fetch_article lib url of
        Inr article \<Rightarrow> take 2000 (article_text lib article)
      | Inl d \<Rightarrow> lit ''Error fetching URL: '' @ d)"

section \<open>The analysis started by the button\<close>

datatype input_type = Text | URL

text \<open>The characters \<open>str.strip()\<close> removes: the Unicode white space.\<close>

definition is_space :: "nat \<Rightarrow> bool" where
  "is_space c \<longleftrightarrow>
     (9 \<le> c \<and> c \<le> 13) \<or> (28 \<le> c \<and> c \<le> 32) \<or> c = 133 \<or> c = 160 \<or> c = 5760 \<or>
     (8192 \<le> c \<and> c \<le> 8202) \<or> c = 8232 \<or> c = 8233 \<or> c = 8239 \<or> c = 8287 \<or> c = 12288"

definition strip :: "pystr \<Rightarrow> pystr" where
  "strip s = rev (dropWhile is_space (rev (dropWhile is_space s)))"

text \<open>
  The code run when the button is pressed, up to the call of
  \<open>classify_text_with_api\<close>: the events, and \<open>api_result\<close> when the classifier was
  called, \<open>None\<close> when the run ended before the call. What follows in the script only
  displays \<open>api_result\<close>.
\<close>

definition analyze ::
  "'a newspaper \<Rightarrow> world \<Rightarrow> input_type \<Rightarrow> pystr \<Rightarrow> event list \<times> pyval option" where
  "analyze lib w input_type user_input =
     (if user_input = [] \<or> strip user_input = [] then
        ([StWarning ([9888, 65039] @ lit '' Please provide text or a URL to analyze.'')], None)
      else if input_type = URL then
        (let text_to_classify = extract_text_from_url lib user_input in
         if sublist (lit ''Error'') text_to_classify then
           ([StError text_to_classify, StStop], None)
         else
           (case classify_text_with_api w text_to_classify of
              (evs, api_result) \<Rightarrow> (evs, Some api_result)))
      else
        (case classify_text_with_api w user_input of
           (evs, api_result) \<Rightarrow> (evs, Some api_result)))"

section \<open>Observations and test worlds\<close>

text \<open>The durations of the calls of \<open>time.sleep\<close> in a run, and the requests sent.\<close>

fun sleeps :: "event list \<Rightarrow> nat list" where
  "sleeps [] = []"
| "sleeps (Sleep n # evs) = n # sleeps evs"
| "sleeps (e # evs) = sleeps evs"

fun posts :: "event list \<Rightarrow> pystr list" where
  "posts [] = []"
| "posts (Post p # evs) = p # posts evs"
| "posts (e # evs) = posts evs"

fun warnings :: "event list \<Rightarrow> pystr list" where
  "warnings [] = []"
| "warnings (StWarning m # evs) = m # warnings evs"
| "warnings (e # evs) = warnings evs"

text \<open>The specification's condition on a result: its \<open>prediction\<close> is one of the four
  enumerated values.\<close>

definition prediction_enumerated :: "pyval \<Rightarrow> bool" where
  "prediction_enumerated v =
     (case getitem_str v (lit ''prediction'') of
        Inr (PyStr s) \<Rightarrow>
          s \<in> set [lit ''True'', lit ''Fake'', lit ''Unverifiable'', lit ''Error'']
      | _ \<Rightarrow> False)"

text \<open>The caller's test \<open>api_result["prediction"] == "Error"\<close>.\<close>

definition prediction_is_error :: "pyval \<Rightarrow> bool" where
  "prediction_is_error v = (getitem_str v (lit ''prediction'') = Inr (PyStr (lit ''Error'')))"

text \<open>A remote endpoint that gives the same outcome to every request, with a JSON
  decoder given by a table of the texts it decodes.\<close>

definition always :: "pystr + response \<Rightarrow> (pystr \<times> pyval) list \<Rightarrow> world" where
  "always outcome table = \<lparr>requests_post = (\<lambda>p i. outcome), decode = map_of table\<rparr>"

definition http_response :: "int \<Rightarrow> pyval option \<Rightarrow> pystr + response" where
  "http_response code body = Inr \<lparr>status_code = code, json_value = body\<rparr>"

text \<open>The body of a chat completion whose first choice has the content \<open>c\<close>.\<close>

definition completion :: "pyval \<Rightarrow> pyval" where
  "completion c =
     PyDict [(lit ''id'', PyStr (lit ''chatcmpl-1'')),
             (lit ''choices'',
                PyList [PyDict [(lit ''index'', PyInt 0),
                                (lit ''message'',
                                   PyDict [(lit ''role'', PyStr (lit ''assistant'')),
                                           (lit ''content'', c)])]])]"

definition fake_text :: pystr where
  \<open>fake_text = lit ''{"prediction":"Fake","real_confidence":0.1,"fake_confidence":0.9}''\<close>

definition fake_result :: pyval where
  "fake_result =
     PyDict [(lit ''prediction'', PyStr (lit ''Fake'')),
             (lit ''real_confidence'', PyFloat (Finite 0.1)),
             (lit ''fake_confidence'', PyFloat (Finite 0.9))]"

definition maybe_text :: pystr where
  \<open>maybe_text = lit ''{"prediction":"Maybe","real_confidence":0.5,"fake_confidence":0.5}''\<close>

definition maybe_result :: pyval where
  "maybe_result =
     PyDict [(lit ''prediction'', PyStr (lit ''Maybe'')),
             (lit ''real_confidence'', PyFloat (Finite 0.5)),
             (lit ''fake_confidence'', PyFloat (Finite 0.5))]"

definition decoder_table :: "(pystr \<times> pyval) list" where
  "decoder_table =
     [(fake_text, fake_result), (maybe_text, maybe_result), (lit ''{}'', PyDict [])]"

text \<open>A \<open>newspaper\<close> library over a table of pages: the article object is the pair of the
  URL and the text found so far; \<open>download()\<close> fails for a URL that is not in the table.\<close>

definition pages_library :: "(pystr \<times> pystr) list \<Rightarrow> (pystr \<times> pystr) newspaper" where
  "pages_library pages =
     \<lparr>Article = (\<lambda>url. Inr (url, [])),
      download = (\<lambda>(url, t). case map_of pages url of
                     None \<Rightarrow> Inl (lit ''Article download() failed on URL '' @ url)
                   | Some body \<Rightarrow> Inr (url, body)),
      parse = (\<lambda>a. Inr a),
      article_text = snd\<rparr>"

definition pages :: "(pystr \<times> pystr) list" where
  "pages =
     [(lit ''https://example.org/weather'', lit ''Rain is expected on Sunday.''),
      (lit ''https://example.org/recall'',
       lit ''The maker blamed the recall on a software fault: Error 53 bricked the phones.'')]"

text \<open>Request \<open>i\<close> is answered with status 429.\<close>

definition rate_limited :: "world \<Rightarrow> pystr \<Rightarrow> nat \<Rightarrow> bool" where
  "rate_limited w p i =
     (case requests_post w p i of Inl d \<Rightarrow> False | Inr r \<Rightarrow> status_code r = 429)"

text \<open>The value the decoder gives for the content of the first choice in the answer to
  request \<open>i\<close>, when that answer is not an HTTP error, has such a content, and the content
  is a string that decodes.\<close>

definition delivered :: "world \<Rightarrow> pystr \<Rightarrow> nat \<Rightarrow> pyval option" where
  "delivered w p i =
     (case requests_post w p i of
        Inl d \<Rightarrow> None
      | Inr r \<Rightarrow>
          if 400 \<le> status_code r \<and> status_code r < 600 then None
          else (case json_value r of
                  None \<Rightarrow> None
                | Some res \<Rightarrow>
                    (case response_content res of
                       Inr (PyStr c) \<Rightarrow> decode w c
                     | _ \<Rightarrow> None)))"

text \<open>A remote endpoint that gives the listed outcomes to the successive requests, and
  refuses the connection after them.\<close>

definition scripted :: "(pystr + response) list \<Rightarrow> (pystr \<times> pyval) list \<Rightarrow> world" where
  "scripted outcomes table =
     \<lparr>requests_post = (\<lambda>p i. if i < length outcomes then outcomes ! i
                                else Inl (lit ''Connection refused'')),
      decode = map_of table\<rparr>"

text \<open>A \<open>newspaper\<close> library that raises in the constructor (stage 0), in \<open>download()\<close>
  (stage 1) or in \<open>parse()\<close> (stage 2), and otherwise succeeds.\<close>

definition failing_library :: "nat \<Rightarrow> pystr newspaper" where
  "failing_library stage =
     \<lparr>Article = (\<lambda>url. if stage = 0 then Inl (lit ''invalid URL'') else Inr url),
      download = (\<lambda>a. if stage = 1 then Inl (lit ''download failed'') else Inr a),
      parse = (\<lambda>a. if stage = 2 then Inl (lit ''You must download() an article first'')
                   else Inr a),
      article_text = (\<lambda>a. lit ''Text of '' @ a)\<rparr>"

section \<open>Auxiliary facts\<close>

lemma range_retries: "[0..<retries] = [0, 1, 2]"
  by (simp add: retries_def upt_rec)

lemma try_then_raises:
  "try_then m f = Inl e \<Longrightarrow> m = Inl e \<or> (\<exists>x. m = Inr x \<and> f x = Inl e)"
  by (cases m) (simp_all add: try_then_def)

lemma try_then_returns:
  "try_then m f = Inr y \<Longrightarrow> \<exists>x. m = Inr x \<and> f x = Inr y"
  by (cases m) (simp_all add: try_then_def)

lemma py_in_raises: "py_in k v = Inl e \<Longrightarrow> e = TypeError"
  by (cases v) auto

lemma getitem_str_raises: "getitem_str v k = Inl e \<Longrightarrow> e = TypeError \<or> e = KeyError (PyStr k)"
  by (cases v) (auto split: option.splits)

lemma getitem_int_raises:
  "getitem_int v i = Inl e \<Longrightarrow> e = TypeError \<or> e = IndexError \<or> e = KeyError (PyInt i)"
  by (cases v) (auto split: option.splits)

lemma json_loads_raises: "json_loads dec v = Inl e \<Longrightarrow> e = TypeError \<or> e = JSONDecodeError"
  by (cases v) (auto split: option.splits)

lemma json_loads_returns:
  "json_loads dec v = Inr x \<Longrightarrow> \<exists>s. v = PyStr s \<and> dec s = Some x"
  by (cases v) (auto split: option.splits)

lemma has_choices_raises: "has_choices res = Inl e \<Longrightarrow> \<forall>r. e \<noteq> HTTPError r"
  unfolding has_choices_def
  by (auto split: if_splits dest!: try_then_raises py_in_raises getitem_str_raises)

lemma response_content_raises: "response_content res = Inl e \<Longrightarrow> \<forall>r. e \<noteq> HTTPError r"
  unfolding response_content_def
  by (auto dest!: try_then_raises getitem_int_raises getitem_str_raises)

lemma read_result_raises: "read_result w res = Inl e \<Longrightarrow> \<forall>r. e \<noteq> HTTPError r"
  unfolding read_result_def
  by (auto split: if_splits dest!: try_then_raises has_choices_raises response_content_raises json_loads_raises)

lemma handler_other:
  "\<forall>r. e \<noteq> HTTPError r \<Longrightarrow>
     handler i e = ([StErrorExn (lit ''Error calling the Groq API: '') e], Break)"
  by (cases e) simp_all

lemma read_result_returns:
  "read_result w res = Inr (evs, v) \<Longrightarrow>
     (evs = [StError (lit ''API response was empty or malformed.'')] \<and> v = error_result) \<or>
     (evs = [] \<and> (\<exists>c. response_content res = Inr (PyStr c) \<and> decode w c = Some v))"
  unfolding read_result_def
  by (auto split: if_splits dest!: try_then_returns json_loads_returns)


lemma try_block_transport:
  "requests_post w p i = Inl d \<Longrightarrow> try_block w p i = Inl (RequestException d)"
  by (simp add: try_block_def try_then_def)

lemma try_block_http_error:
  "requests_post w p i = Inr r \<Longrightarrow> 400 \<le> status_code r \<Longrightarrow> status_code r < 600 \<Longrightarrow>
     try_block w p i = Inl (HTTPError r)"
  by (simp add: try_block_def try_then_def raise_for_status_def)

lemma try_block_no_body:
  "requests_post w p i = Inr r \<Longrightarrow> \<not> (400 \<le> status_code r \<and> status_code r < 600) \<Longrightarrow>
     json_value r = None \<Longrightarrow> try_block w p i = Inl JSONDecodeError"
  by (auto simp: try_block_def try_then_def raise_for_status_def response_json_def)

lemma try_block_body:
  "requests_post w p i = Inr r \<Longrightarrow> \<not> (400 \<le> status_code r \<and> status_code r < 600) \<Longrightarrow>
     json_value r = Some res \<Longrightarrow> try_block w p i = read_result w res"
  by (auto simp: try_block_def try_then_def raise_for_status_def response_json_def)

lemma attempt_rate_limited:
  "requests_post w p i = Inr r \<Longrightarrow> status_code r = 429 \<Longrightarrow>
     attempt w p i =
       ([Post p,
         StWarning (lit ''Rate limit exceeded. Retrying in '' @ str_nat (2 ^ (i + 1))
                    @ lit '' seconds...''),
         Sleep (2 ^ (i + 1))], Continue)"
  by (simp add: attempt_def try_block_http_error)

lemma attempt_http_error:
  "requests_post w p i = Inr r \<Longrightarrow> 400 \<le> status_code r \<Longrightarrow> status_code r < 600 \<Longrightarrow>
   status_code r \<noteq> 429 \<Longrightarrow>
     attempt w p i = ([Post p, StErrorExn (lit ''HTTP error occurred: '') (HTTPError r)], Break)"
  by (simp add: attempt_def try_block_http_error)

lemma attempt_transport:
  "requests_post w p i = Inl d \<Longrightarrow>
     attempt w p i =
       ([Post p, StErrorExn (lit ''Error calling the Groq API: '') (RequestException d)], Break)"
  by (simp add: attempt_def try_block_transport)

lemma attempt_no_body:
  "requests_post w p i = Inr r \<Longrightarrow> \<not> (400 \<le> status_code r \<and> status_code r < 600) \<Longrightarrow>
   json_value r = None \<Longrightarrow>
     attempt w p i =
       ([Post p, StErrorExn (lit ''Error calling the Groq API: '') JSONDecodeError], Break)"
  by (simp add: attempt_def try_block_no_body)

lemma attempt_body_raises:
  "requests_post w p i = Inr r \<Longrightarrow> \<not> (400 \<le> status_code r \<and> status_code r < 600) \<Longrightarrow>
   json_value r = Some res \<Longrightarrow> read_result w res = Inl e \<Longrightarrow>
     attempt w p i = ([Post p, StErrorExn (lit ''Error calling the Groq API: '') e], Break)"
  using handler_other [OF read_result_raises, of w res e i]
  by (simp add: attempt_def try_block_body)

lemma attempt_body_returns:
  "requests_post w p i = Inr r \<Longrightarrow> \<not> (400 \<le> status_code r \<and> status_code r < 600) \<Longrightarrow>
   json_value r = Some res \<Longrightarrow> read_result w res = Inr (evs, v) \<Longrightarrow>
     attempt w p i = (Post p # evs, Return v)"
  by (simp add: attempt_def try_block_body)

lemma for_loop_Continue:
  "attempt w p i = (evs, Continue) \<Longrightarrow>
     for_loop w p (i # rest) = (evs @ fst (for_loop w p rest), snd (for_loop w p rest))"
  by (simp add: case_prod_unfold)

lemma str_nat_digit: "n < 10 \<Longrightarrow> str_nat n = [48 + n]"
  by (simp add: str_nat.simps)

lemma all_rate_limited_run:
  assumes "\<And>i. i < retries \<Longrightarrow> \<exists>r. requests_post w p i = Inr r \<and> status_code r = 429"
  shows "for_loop w p [0..<retries] =
           ([Post p, StWarning (lit ''Rate limit exceeded. Retrying in 2 seconds...''), Sleep 2,
             Post p, StWarning (lit ''Rate limit exceeded. Retrying in 4 seconds...''), Sleep 4,
             Post p, StWarning (lit ''Rate limit exceeded. Retrying in 8 seconds...''), Sleep 8],
            error_result)"
proof -
  from assms [of 0] obtain r0 where r0: "requests_post w p 0 = Inr r0" "status_code r0 = 429"
    by (auto simp: retries_def)
  from assms [of 1] obtain r1 where r1: "requests_post w p 1 = Inr r1" "status_code r1 = 429"
    by (auto simp: retries_def)
  from assms [of 2] obtain r2 where r2: "requests_post w p 2 = Inr r2" "status_code r2 = 429"
    by (auto simp: retries_def)
  have a0: "attempt w p 0 =
      ([Post p, StWarning (lit ''Rate limit exceeded. Retrying in 2 seconds...''), Sleep 2],
       Continue)"
    using attempt_rate_limited [OF r0] by (simp add: str_nat_digit lit_def)
  have a1: "attempt w p 1 =
      ([Post p, StWarning (lit ''Rate limit exceeded. Retrying in 4 seconds...''), Sleep 4],
       Continue)"
    using attempt_rate_limited [OF r1] by (simp add: str_nat_digit lit_def)
  have a2: "attempt w p 2 =
      ([Post p, StWarning (lit ''Rate limit exceeded. Retrying in 8 seconds...''), Sleep 8],
       Continue)"
    using attempt_rate_limited [OF r2] by (simp add: str_nat_digit lit_def)
  have l2: "for_loop w p [2] = 
      ([Post p, StWarning (lit ''Rate limit exceeded. Retrying in 8 seconds...''), Sleep 8],
       error_result)"
    using for_loop_Continue [OF a2, of "[]"] by simp
  have l1: "for_loop w p [1, 2] = 
      ([Post p, StWarning (lit ''Rate limit exceeded. Retrying in 4 seconds...''), Sleep 4,
        Post p, StWarning (lit ''Rate limit exceeded. Retrying in 8 seconds...''), Sleep 8],
       error_result)"
    using for_loop_Continue [OF a1, of "[2]"] l2 by simp
  have "for_loop w p [0, 1, 2] = 
      ([Post p, StWarning (lit ''Rate limit exceeded. Retrying in 2 seconds...''), Sleep 2,
        Post p, StWarning (lit ''Rate limit exceeded. Retrying in 4 seconds...''), Sleep 4,
        Post p, StWarning (lit ''Rate limit exceeded. Retrying in 8 seconds...''), Sleep 8],
       error_result)"
    using for_loop_Continue [OF a0, of "[1, 2]"] l1 by simp
  then show ?thesis by (simp add: range_retries)
qed

lemma classify_first_Break:
  "attempt w (build_prompt text) 0 = (evs, Break) \<Longrightarrow>
     classify_text_with_api w text = (evs, error_result)"
  by (simp add: classify_text_with_api_def range_retries)

lemma classify_first_Return:
  "attempt w (build_prompt text) 0 = (evs, Return v) \<Longrightarrow>
     classify_text_with_api w text = (evs, v)"
  by (simp add: classify_text_with_api_def range_retries)

lemma response_content_has_choices:
  assumes "response_content res = Inr x"
  shows "has_choices res = Inr True"
proof -
  from assms obtain cs c where cs: "getitem_str res (lit ''choices'') = Inr cs"
    and c: "getitem_int cs 0 = Inr c" and m: "getitem_str c (lit ''message'') \<noteq> Inl TypeError"
    unfolding response_content_def
    by (auto dest!: try_then_returns)
  from cs obtain kvs where res: "res = PyDict kvs" and k: "map_of kvs (lit ''choices'') = Some cs"
    by (cases res) (auto split: option.splits)
  from k have "kvs \<noteq> []" by auto
  moreover from k have "lit ''choices'' \<in> set (map fst kvs)"
    by (metis map_of_eq_None_iff option.distinct(1) set_map)
  moreover from c m have "truthy cs"
    by (cases cs) (auto simp: index_of_def split: option.splits if_splits)
  ultimately show ?thesis using res k
    by (simp add: has_choices_def try_then_def)
qed

lemma read_result_undecodable:
  assumes "response_content res = Inr (PyStr c)" and "decode w c = None"
  shows "read_result w res = Inl JSONDecodeError"
  using assms response_content_has_choices [OF assms(1)]
  by (simp add: read_result_def try_then_def)

lemma read_result_decoded:
  assumes "response_content res = Inr (PyStr c)" and "decode w c = Some v"
  shows "read_result w res = Inr ([], v)"
  using assms response_content_has_choices [OF assms(1)]
  by (simp add: read_result_def try_then_def)

lemma read_result_no_choices:
  assumes "\<not> truthy res \<or> py_in (lit ''choices'') res = Inr False
           \<or> getitem_str res (lit ''choices'') = Inr (PyList [])"
  shows "read_result w res =
           Inr ([StError (lit ''API response was empty or malformed.'')], error_result)"
proof -
  have "has_choices res = Inr False"
  proof (cases "truthy res")
    case False
    then show ?thesis by (simp add: has_choices_def)
  next
    case True
    show ?thesis
    proof (cases "py_in (lit ''choices'') res = Inr False")
      case True
      with \<open>truthy res\<close> show ?thesis by (simp add: has_choices_def try_then_def)
    next
      case False
      with assms \<open>truthy res\<close> have g: "getitem_str res (lit ''choices'') = Inr (PyList [])"
        by simp
      then obtain kvs where "res = PyDict kvs" "map_of kvs (lit ''choices'') = Some (PyList [])"
        by (cases res) (auto split: option.splits)
      with g show ?thesis
        by (auto simp: has_choices_def try_then_def)
    qed
  qed
  then show ?thesis by (simp add: read_result_def try_then_def)
qed

lemma classify_decoded:
  assumes "requests_post w (build_prompt text) 0 = Inr r"
    and "\<not> (400 \<le> status_code r \<and> status_code r < 600)"
    and "json_value r = Some res"
    and "response_content res = Inr (PyStr c)"
    and "decode w c = Some v"
  shows "classify_text_with_api w text = ([Post (build_prompt text)], v)"
  using assms(1-3) read_result_decoded [OF assms(4,5)]
  by (intro classify_first_Return attempt_body_returns)

lemma completion_content: "response_content (completion c) = Inr c"
  by (simp add: completion_def response_content_def try_then_def index_of_def lit_def)

lemma attempt_posts_first: "\<exists>evs. fst (attempt w p i) = Post p # evs"
  by (cases "try_block w p i"; cases "handler i (projl (try_block w p i))")
     (auto simp: attempt_def split: prod.splits)

lemma for_loop_posts_first: "\<exists>evs. fst (for_loop w p (i # rest)) = Post p # evs"
proof -
  obtain evs f where a: "attempt w p i = (evs, f)" by (cases "attempt w p i")
  with attempt_posts_first [of w p i] obtain evs' where e: "evs = Post p # evs'" by auto
  show ?thesis
    by (cases f) (simp_all add: a e case_prod_unfold)
qed

lemma classify_posts: "posts (fst (classify_text_with_api w text)) \<noteq> []"
  using for_loop_posts_first [of w "build_prompt text" 0 "[1, 2]"]
  by (auto simp: classify_text_with_api_def range_retries)

lemma error_marker_in_failure: "sublist (lit ''Error'') (lit ''Error fetching URL: '' @ d)"
proof -
  have "lit ''Error fetching URL: '' @ d = [] @ lit ''Error'' @ (lit '' fetching URL: '' @ d)"
    by (simp add: lit_def)
  then show ?thesis unfolding sublist_def by blast
qed

lemma attempt_limited: "rate_limited w p i \<Longrightarrow> snd (attempt w p i) = Continue"
  by (auto simp: rate_limited_def attempt_rate_limited split: sum.splits)

lemma attempt_delivered:
  assumes "delivered w p i = Some v"
  shows "attempt w p i = ([Post p], Return v)"
proof -
  from assms obtain r res c where r: "requests_post w p i = Inr r"
      "\<not> (400 \<le> status_code r \<and> status_code r < 600)" "json_value r = Some res"
      "response_content res = Inr (PyStr c)" "decode w c = Some v"
    by (auto simp: delivered_def split: sum.splits if_splits option.splits pyval.splits)
  from r(1-3) read_result_decoded [OF r(4,5)] show ?thesis
    by (rule attempt_body_returns)
qed

lemma attempt_failed:
  assumes "\<not> rate_limited w p i" and "delivered w p i = None"
  shows "snd (attempt w p i) = Break \<or> snd (attempt w p i) = Return error_result"
proof (cases "requests_post w p i")
  case (Inl d)
  then show ?thesis by (simp add: attempt_transport)
next
  case (Inr r)
  show ?thesis
  proof (cases "400 \<le> status_code r \<and> status_code r < 600")
    case True
    moreover from assms(1) Inr have "status_code r \<noteq> 429" by (simp add: rate_limited_def)
    ultimately show ?thesis using Inr by (simp add: attempt_http_error)
  next
    case False
    show ?thesis
    proof (cases "json_value r")
      case None
      with Inr False show ?thesis by (simp add: attempt_no_body)
    next
      case (Some res)
      show ?thesis
      proof (cases "read_result w res")
        case (Inl e)
        from attempt_body_raises [OF Inr False Some Inl] show ?thesis by simp
      next
        case rr: (Inr x)
        obtain evs v where x: "x = (evs, v)" by (cases x)
        from rr x have rv: "read_result w res = Inr (evs, v)" by simp
        have "v = error_result"
        proof (rule ccontr)
          assume "v \<noteq> error_result"
          with read_result_returns [OF rv] obtain c
            where "response_content res = Inr (PyStr c)" "decode w c = Some v" by auto
          with Inr False Some have "delivered w p i = Some v"
            by (auto simp: delivered_def)
          with assms(2) show False by simp
        qed
        with attempt_body_returns [OF Inr False Some rv] show ?thesis by simp
      qed
    qed
  qed
qed

lemma for_loop_skips_limited:
  "\<forall>j \<in> set pre. rate_limited w p j \<Longrightarrow>
     snd (for_loop w p (pre @ rest)) = snd (for_loop w p rest)"
proof (induction pre)
  case Nil
  show ?case by simp
next
  case (Cons j pre)
  then have "snd (attempt w p j) = Continue" by (simp add: attempt_limited)
  then obtain evs where "attempt w p j = (evs, Continue)" by (cases "attempt w p j") simp
  with Cons show ?case by (simp add: case_prod_unfold)
qed

lemma for_loop_head_delivered:
  "delivered w p k = Some v \<Longrightarrow> snd (for_loop w p (k # rest)) = v"
  by (simp add: attempt_delivered)

lemma for_loop_head_failed:
  assumes "\<not> rate_limited w p k" and "delivered w p k = None"
  shows "snd (for_loop w p (k # rest)) = error_result"
proof -
  obtain evs f where a: "attempt w p k = (evs, f)" by (cases "attempt w p k")
  with attempt_failed [OF assms] have "f = Break \<or> f = Return error_result" by simp
  with a show ?thesis by auto
qed

lemma range_split: "k < n \<Longrightarrow> [0..<n] = [0..<k] @ k # [Suc k..<n]"
  by (metis less_imp_le_nat upt_add_eq_append upt_conv_Cons le_add_diff_inverse zero_le add_0)

section \<open>The claims\<close>

text \<open>
  Claim C1, as amended. For every text and every behaviour of the endpoint and of the
  decoder the classifier returns a result: each exception raised in the \<open>try\<close> block is
  caught by one of the two \<open>except\<close> clauses. When one of the three requests, all the
  requests before it having been answered 429, is answered without an HTTP error and
  the content of the first choice is a string that decodes, the decoded value is
  returned as it is, its \<open>prediction\<close> not compared with the enumerated values. When
  there is no such request, whatever the failure, the result is the dict with
  \<open>prediction\<close> \<open>Error\<close>, \<open>real_confidence\<close> \<open>0.0\<close> and \<open>fake_confidence\<close> \<open>0.0\<close>.
\<close>

theorem classify_result_characterised:
  "(\<forall>k v. k < retries \<and> (\<forall>j<k. rate_limited w (build_prompt text) j)
            \<and> delivered w (build_prompt text) k = Some v \<longrightarrow>
       snd (classify_text_with_api w text) = v)
   \<and> ((\<forall>k<retries. (\<forall>j<k. rate_limited w (build_prompt text) j) \<longrightarrow>
            delivered w (build_prompt text) k = None) \<longrightarrow>
       snd (classify_text_with_api w text) =
         PyDict [(lit ''prediction'', PyStr (lit ''Error'')),
                 (lit ''real_confidence'', PyFloat (Finite 0)),
                 (lit ''fake_confidence'', PyFloat (Finite 0))])"
proof (intro conjI allI impI)
  fix k v
  assume h: "k < retries \<and> (\<forall>j<k. rate_limited w (build_prompt text) j)
            \<and> delivered w (build_prompt text) k = Some v"
  then have "[0..<retries] = [0..<k] @ k # [Suc k..<retries]" by (simp add: range_split)
  moreover from h have "\<forall>j \<in> set [0..<k]. rate_limited w (build_prompt text) j" by simp
  ultimately show "snd (classify_text_with_api w text) = v"
    using h by (simp add: classify_text_with_api_def for_loop_skips_limited
                  for_loop_head_delivered del: for_loop.simps)
next
  let ?p = "build_prompt text"
  assume h: "\<forall>k<retries. (\<forall>j<k. rate_limited w ?p j) \<longrightarrow> delivered w ?p k = None"
  have "snd (for_loop w ?p [0..<retries]) = error_result"
  proof (cases "\<forall>j<retries. rate_limited w ?p j")
    case True
    then have "\<forall>j \<in> set [0..<retries]. rate_limited w ?p j" by simp
    from for_loop_skips_limited [OF this, of "[]"] show ?thesis by simp
  next
    case False
    define k where "k = (LEAST j. j < retries \<and> \<not> rate_limited w ?p j)"
    from False have ex: "\<exists>j. j < retries \<and> \<not> rate_limited w ?p j" by blast
    then have k: "k < retries" "\<not> rate_limited w ?p k"
      unfolding k_def by (metis (mono_tags, lifting) LeastI_ex)+
    have before: "\<forall>j<k. rate_limited w ?p j"
    proof (intro allI impI)
      fix j assume "j < k"
      then have "\<not> (j < retries \<and> \<not> rate_limited w ?p j)"
        unfolding k_def by (rule not_less_Least)
      with \<open>j < k\<close> k(1) show "rate_limited w ?p j" by simp
    qed
    with h k(1) have d: "delivered w ?p k = None" by blast
    from k(1) have "[0..<retries] = [0..<k] @ k # [Suc k..<retries]" by (rule range_split)
    moreover from before have "\<forall>j \<in> set [0..<k]. rate_limited w ?p j" by simp
    ultimately show ?thesis
      using for_loop_head_failed [OF k(2) d]
      by (simp add: for_loop_skips_limited del: for_loop.simps)
  qed
  then show "snd (classify_text_with_api w text) =
         PyDict [(lit ''prediction'', PyStr (lit ''Error'')),
                 (lit ''real_confidence'', PyFloat (Finite 0)),
                 (lit ''fake_confidence'', PyFloat (Finite 0))]"
    by (simp add: classify_text_with_api_def error_result_def)
qed

text \<open>
  The results against an endpoint that answers 429 and then a good completion, and
  against one that answers 429, then 500: the good completion it would give to a third
  request is never asked for.
\<close>

theorem classify_result_characterised_witness:
  "snd (classify_text_with_api
          (scripted [http_response 429 None,
                     http_response 200 (Some (completion (PyStr fake_text)))] decoder_table)
          (lit ''Rain'')) = fake_result
   \<and> snd (classify_text_with_api
          (scripted [http_response 429 None, http_response 500 None,
                     http_response 200 (Some (completion (PyStr fake_text)))] decoder_table)
          (lit ''Rain''))
       = PyDict [(lit ''prediction'', PyStr (lit ''Error'')),
                 (lit ''real_confidence'', PyFloat (Finite 0)),
                 (lit ''fake_confidence'', PyFloat (Finite 0))]"
proof -
  let ?p = "build_prompt (lit ''Rain'')"
  let ?w = "scripted [http_response 429 None,
                     http_response 200 (Some (completion (PyStr fake_text)))] decoder_table"
  let ?w' = "scripted [http_response 429 None, http_response 500 None,
                     http_response 200 (Some (completion (PyStr fake_text)))] decoder_table"
  have table: "map_of decoder_table fake_text = Some fake_result"
    by (simp add: decoder_table_def)
  have l0: "rate_limited ?w ?p 0"
    by (simp add: rate_limited_def scripted_def http_response_def)
  have d1: "delivered ?w ?p 1 = Some fake_result"
    by (simp add: delivered_def scripted_def http_response_def completion_content table)
  have "(1::nat) < retries \<and> (\<forall>j<1. rate_limited ?w ?p j) \<and> delivered ?w ?p 1 = Some fake_result"
    using l0 d1 by (simp add: retries_def)
  with classify_result_characterised [of ?w "lit ''Rain''"]
  have a: "snd (classify_text_with_api ?w (lit ''Rain'')) = fake_result"
    by blast
  have f0: "delivered ?w' ?p 0 = None"
    by (simp add: delivered_def scripted_def http_response_def)
  have f1: "delivered ?w' ?p 1 = None" "\<not> rate_limited ?w' ?p 1"
    by (simp_all add: delivered_def rate_limited_def scripted_def http_response_def)
  have "\<forall>k<retries. (\<forall>j<k. rate_limited ?w' ?p j) \<longrightarrow> delivered ?w' ?p k = None"
  proof (intro allI impI)
    fix k assume "k < retries" and b: "\<forall>j<k. rate_limited ?w' ?p j"
    then have "k = 0 \<or> k = 1 \<or> k = 2" by (auto simp: retries_def)
    with f0 f1 b show "delivered ?w' ?p k = None" by auto
  qed
  with classify_result_characterised [of ?w' "lit ''Rain''"]
  have b: "snd (classify_text_with_api ?w' (lit ''Rain''))
       = PyDict [(lit ''prediction'', PyStr (lit ''Error'')),
                 (lit ''real_confidence'', PyFloat (Finite 0)),
                 (lit ''fake_confidence'', PyFloat (Finite 0))]"
    by blast
  from a b show ?thesis by simp
qed

text \<open>
  Claim C1 as stated fails: the endpoint answers 200 and the content of the first choice
  decodes to a dict whose \<open>prediction\<close> is \<open>Maybe\<close>; the classifier returns that dict, whose
  \<open>prediction\<close> is none of \<open>True\<close>, \<open>Fake\<close>, \<open>Unverifiable\<close>, \<open>Error\<close>.
\<close>

theorem prediction_not_enumerated_counterexample:
  "\<not> prediction_enumerated
       (snd (classify_text_with_api
          (always (http_response 200 (Some (completion (PyStr maybe_text)))) decoder_table)
          (lit ''Rain is expected on Sunday.'')))"
proof -
  have "classify_text_with_api
          (always (http_response 200 (Some (completion (PyStr maybe_text)))) decoder_table)
          (lit ''Rain is expected on Sunday.'')
        = ([Post (build_prompt (lit ''Rain is expected on Sunday.''))], maybe_result)"
    by (rule classify_decoded
          [where c = maybe_text and res = "completion (PyStr maybe_text)"
             and r = "\<lparr>status_code = 200, json_value = Some (completion (PyStr maybe_text))\<rparr>"])
       (simp_all add: always_def http_response_def completion_content decoder_table_def
          maybe_text_def fake_text_def lit_def)
  then show ?thesis
    by (simp add: prediction_enumerated_def maybe_result_def lit_def)
qed

text \<open>
  Claim C2. When the endpoint answers every request with status 429, the classifier
  sends exactly three requests, shows a warning after each, sleeps 2, then 4, then 8
  seconds (each delay twice the one before), and returns the dict with \<open>prediction\<close>
  \<open>Error\<close>, \<open>real_confidence\<close> \<open>0.0\<close> and \<open>fake_confidence\<close> \<open>0.0\<close>.
\<close>

theorem rate_limited_three_attempts:
  assumes "\<And>i. i < retries \<Longrightarrow>
             \<exists>r. requests_post w (build_prompt text) i = Inr r \<and> status_code r = 429"
  shows "classify_text_with_api w text =
           ([Post (build_prompt text),
             StWarning (lit ''Rate limit exceeded. Retrying in 2 seconds...''), Sleep 2,
             Post (build_prompt text),
             StWarning (lit ''Rate limit exceeded. Retrying in 4 seconds...''), Sleep 4,
             Post (build_prompt text),
             StWarning (lit ''Rate limit exceeded. Retrying in 8 seconds...''), Sleep 8],
            PyDict [(lit ''prediction'', PyStr (lit ''Error'')),
                    (lit ''real_confidence'', PyFloat (Finite 0)),
                    (lit ''fake_confidence'', PyFloat (Finite 0))])
         \<and> length (posts (fst (classify_text_with_api w text))) = 3
         \<and> sleeps (fst (classify_text_with_api w text)) = [2, 4, 8]
         \<and> length (warnings (fst (classify_text_with_api w text))) = 3"
  using all_rate_limited_run [OF assms]
  by (simp add: classify_text_with_api_def error_result_def)

text \<open>
  The run against an endpoint that always answers 429.
\<close>

theorem rate_limited_three_attempts_witness:
  "classify_text_with_api (always (http_response 429 None) decoder_table) (lit ''Rain is expected.'') =
     ([Post (build_prompt (lit ''Rain is expected.'')),
       StWarning (lit ''Rate limit exceeded. Retrying in 2 seconds...''), Sleep 2,
       Post (build_prompt (lit ''Rain is expected.'')),
       StWarning (lit ''Rate limit exceeded. Retrying in 4 seconds...''), Sleep 4,
       Post (build_prompt (lit ''Rain is expected.'')),
       StWarning (lit ''Rate limit exceeded. Retrying in 8 seconds...''), Sleep 8],
      PyDict [(lit ''prediction'', PyStr (lit ''Error'')),
              (lit ''real_confidence'', PyFloat (Finite 0)),
              (lit ''fake_confidence'', PyFloat (Finite 0))])"
  using rate_limited_three_attempts [of "always (http_response 429 None) decoder_table" "lit ''Rain is expected.''"]
  by (simp add: always_def http_response_def)

text \<open>
  Claim C3, as amended. For a response with status 200 that has a content in its first
  choice: when \<open>json.loads\<close> fails on the content, because the content is not a string or
  is a string that does not decode, the classifier shows an error and returns the dict
  with \<open>prediction\<close> \<open>Error\<close> and both confidences \<open>0.0\<close>; when the content decodes, the
  decoded value is returned as it is, whatever its shape. No check of the three fields
  is made.
\<close>

theorem parse_failure_error_else_as_is:
  assumes "requests_post w (build_prompt text) 0 = Inr r" and "status_code r = 200"
    and "json_value r = Some res"
    and "response_content res = Inr content"
  shows "((\<forall>c. content \<noteq> PyStr c) \<longrightarrow>
            classify_text_with_api w text =
              ([Post (build_prompt text),
                StErrorExn (lit ''Error calling the Groq API: '') TypeError],
               PyDict [(lit ''prediction'', PyStr (lit ''Error'')),
                       (lit ''real_confidence'', PyFloat (Finite 0)),
                       (lit ''fake_confidence'', PyFloat (Finite 0))]))
       \<and> (\<forall>c. content = PyStr c \<and> decode w c = None \<longrightarrow>
            classify_text_with_api w text =
              ([Post (build_prompt text),
                StErrorExn (lit ''Error calling the Groq API: '') JSONDecodeError],
               PyDict [(lit ''prediction'', PyStr (lit ''Error'')),
                       (lit ''real_confidence'', PyFloat (Finite 0)),
                       (lit ''fake_confidence'', PyFloat (Finite 0))]))
       \<and> (\<forall>c v. content = PyStr c \<and> decode w c = Some v \<longrightarrow>
            classify_text_with_api w text = ([Post (build_prompt text)], v))"
proof -
  have ok: "\<not> (400 \<le> status_code r \<and> status_code r < 600)"
    using assms(2) by simp
  note hc = response_content_has_choices [OF assms(4)]
  have 1: "classify_text_with_api w text =
              ([Post (build_prompt text),
                StErrorExn (lit ''Error calling the Groq API: '') TypeError], error_result)"
    if "\<forall>c. content \<noteq> PyStr c"
  proof -
    from that have "json_loads (decode w) content = Inl TypeError"
      by (cases content) simp_all
    with assms(4) hc have "read_result w res = Inl TypeError"
      by (simp add: read_result_def try_then_def)
    with assms(1) ok assms(3) show ?thesis
      by (intro classify_first_Break attempt_body_raises)
  qed
  have 2: "classify_text_with_api w text =
              ([Post (build_prompt text),
                StErrorExn (lit ''Error calling the Groq API: '') JSONDecodeError], error_result)"
    if "content = PyStr c \<and> decode w c = None" for c
  proof -
    from that assms(4) have "read_result w res = Inl JSONDecodeError"
      by (simp add: read_result_undecodable)
    with assms(1) ok assms(3) show ?thesis
      by (intro classify_first_Break attempt_body_raises)
  qed
  have 3: "classify_text_with_api w text = ([Post (build_prompt text)], v)"
    if "content = PyStr c \<and> decode w c = Some v" for c v
    using assms(1) ok assms(3,4) that by (auto intro: classify_decoded)
  from 1 2 3 show ?thesis unfolding error_result_def by blast
qed

text \<open>
  The runs for the content \<open>not json\<close>, which does not decode, for the content \<open>null\<close>,
  which is not a string, and for the content \<open>{}\<close>, which decodes to the empty dict.
\<close>

theorem parse_failure_error_else_as_is_witness:
  "classify_text_with_api
     (always (http_response 200 (Some (completion (PyStr (lit ''not json''))))) decoder_table)
     (lit ''Rain'')
   = ([Post (build_prompt (lit ''Rain'')),
       StErrorExn (lit ''Error calling the Groq API: '') JSONDecodeError],
      PyDict [(lit ''prediction'', PyStr (lit ''Error'')),
              (lit ''real_confidence'', PyFloat (Finite 0)),
              (lit ''fake_confidence'', PyFloat (Finite 0))])
   \<and> classify_text_with_api
     (always (http_response 200 (Some (completion PyNone))) decoder_table)
     (lit ''Rain'')
   = ([Post (build_prompt (lit ''Rain'')),
       StErrorExn (lit ''Error calling the Groq API: '') TypeError],
      PyDict [(lit ''prediction'', PyStr (lit ''Error'')),
              (lit ''real_confidence'', PyFloat (Finite 0)),
              (lit ''fake_confidence'', PyFloat (Finite 0))])
   \<and> classify_text_with_api
     (always (http_response 200 (Some (completion (PyStr (lit ''{}''))))) decoder_table)
     (lit ''Rain'')
   = ([Post (build_prompt (lit ''Rain''))], PyDict [])"
  using parse_failure_error_else_as_is
          [of "always (http_response 200 (Some (completion (PyStr (lit ''not json''))))) decoder_table"
              "lit ''Rain''"
              "\<lparr>status_code = 200, json_value = Some (completion (PyStr (lit ''not json'')))\<rparr>"
              "completion (PyStr (lit ''not json''))" "PyStr (lit ''not json'')"]
        parse_failure_error_else_as_is
          [of "always (http_response 200 (Some (completion PyNone))) decoder_table"
              "lit ''Rain''"
              "\<lparr>status_code = 200, json_value = Some (completion PyNone)\<rparr>"
              "completion PyNone" "PyNone"]
        parse_failure_error_else_as_is
          [of "always (http_response 200 (Some (completion (PyStr (lit ''{}''))))) decoder_table"
              "lit ''Rain''"
              "\<lparr>status_code = 200, json_value = Some (completion (PyStr (lit ''{}'')))\<rparr>"
              "completion (PyStr (lit ''{}''))" "PyStr (lit ''{}'')"]
  by (simp add: always_def http_response_def completion_content decoder_table_def
        maybe_text_def fake_text_def lit_def)

text \<open>
  Claim C3 as stated fails: the endpoint answers 200 and the content of the first choice
  is \<open>{}\<close>, valid JSON without any of the three fields; the classifier returns the empty
  dict, which has no \<open>prediction\<close> equal to \<open>Error\<close>.
\<close>

theorem shapeless_value_returned_counterexample:
  "snd (classify_text_with_api
          (always (http_response 200 (Some (completion (PyStr (lit ''{}''))))) decoder_table)
          (lit ''Rain is expected on Sunday.'')) = PyDict []
   \<and> \<not> prediction_is_error
       (snd (classify_text_with_api
          (always (http_response 200 (Some (completion (PyStr (lit ''{}''))))) decoder_table)
          (lit ''Rain is expected on Sunday.'')))"
proof -
  have "classify_text_with_api
          (always (http_response 200 (Some (completion (PyStr (lit ''{}''))))) decoder_table)
          (lit ''Rain is expected on Sunday.'')
        = ([Post (build_prompt (lit ''Rain is expected on Sunday.''))], PyDict [])"
    by (rule classify_decoded
          [where c = "lit ''{}''" and res = "completion (PyStr (lit ''{}''))"
             and r = "\<lparr>status_code = 200, json_value = Some (completion (PyStr (lit ''{}'')))\<rparr>"])
       (simp_all add: always_def http_response_def completion_content decoder_table_def
          maybe_text_def fake_text_def lit_def)
  then show ?thesis
    by (simp add: prediction_is_error_def)
qed

text \<open>
  Claim C4. When the first request fails in transport, or is answered with an HTTP error
  status other than 429, the classifier has sent exactly one request, shows the error,
  does not sleep, and returns the dict with \<open>prediction\<close> \<open>Error\<close> and both confidences
  \<open>0.0\<close>.
\<close>

theorem no_retry_on_other_failures:
  "(requests_post w (build_prompt text) 0 = Inl d \<longrightarrow>
      classify_text_with_api w text =
        ([Post (build_prompt text),
          StErrorExn (lit ''Error calling the Groq API: '') (RequestException d)],
         PyDict [(lit ''prediction'', PyStr (lit ''Error'')),
                 (lit ''real_confidence'', PyFloat (Finite 0)),
                 (lit ''fake_confidence'', PyFloat (Finite 0))]))
   \<and> (requests_post w (build_prompt text) 0 = Inr r
        \<and> 400 \<le> status_code r \<and> status_code r < 600 \<and> status_code r \<noteq> 429 \<longrightarrow>
      classify_text_with_api w text =
        ([Post (build_prompt text), StErrorExn (lit ''HTTP error occurred: '') (HTTPError r)],
         PyDict [(lit ''prediction'', PyStr (lit ''Error'')),
                 (lit ''real_confidence'', PyFloat (Finite 0)),
                 (lit ''fake_confidence'', PyFloat (Finite 0))]))"
proof -
  have 1: "classify_text_with_api w text =
        ([Post (build_prompt text),
          StErrorExn (lit ''Error calling the Groq API: '') (RequestException d)],
         error_result)"
    if "requests_post w (build_prompt text) 0 = Inl d"
    using that by (intro classify_first_Break attempt_transport)
  have 2: "classify_text_with_api w text =
        ([Post (build_prompt text), StErrorExn (lit ''HTTP error occurred: '') (HTTPError r)],
         error_result)"
    if "requests_post w (build_prompt text) 0 = Inr r
        \<and> 400 \<le> status_code r \<and> status_code r < 600 \<and> status_code r \<noteq> 429"
    using that by (intro classify_first_Break attempt_http_error) simp_all
  from 1 2 show ?thesis unfolding error_result_def by blast
qed

text \<open>
  The runs against an endpoint that answers 500 and against a refused connection.
\<close>

theorem no_retry_on_other_failures_witness:
  "classify_text_with_api (always (http_response 500 None) decoder_table) (lit ''Rain'') =
     ([Post (build_prompt (lit ''Rain'')),
       StErrorExn (lit ''HTTP error occurred: '')
         (HTTPError \<lparr>status_code = 500, json_value = None\<rparr>)],
      PyDict [(lit ''prediction'', PyStr (lit ''Error'')),
              (lit ''real_confidence'', PyFloat (Finite 0)),
              (lit ''fake_confidence'', PyFloat (Finite 0))])
   \<and> classify_text_with_api (always (Inl (lit ''Connection refused'')) decoder_table) (lit ''Rain'') =
     ([Post (build_prompt (lit ''Rain'')),
       StErrorExn (lit ''Error calling the Groq API: '')
         (RequestException (lit ''Connection refused''))],
      PyDict [(lit ''prediction'', PyStr (lit ''Error'')),
              (lit ''real_confidence'', PyFloat (Finite 0)),
              (lit ''fake_confidence'', PyFloat (Finite 0))])"
  using no_retry_on_other_failures [of "always (http_response 500 None) decoder_table"
          "lit ''Rain''" "[]" "\<lparr>status_code = 500, json_value = None\<rparr>"]
        no_retry_on_other_failures [of "always (Inl (lit ''Connection refused'')) decoder_table"
          "lit ''Rain''" "lit ''Connection refused''" "\<lparr>status_code = 500, json_value = None\<rparr>"]
  by (simp add: always_def http_response_def)

text \<open>
  Claim C5. When the response has status 200 and its body is not valid JSON, or the
  content of its first choice is a string that is not valid JSON, the decoding exception
  is caught and the classifier returns, after one request, the dict with \<open>prediction\<close>
  \<open>Error\<close> and both confidences \<open>0.0\<close>.
\<close>

theorem undecodable_response_gives_error:
  assumes "requests_post w (build_prompt text) 0 = Inr r" and "status_code r = 200"
    and "json_value r = None
         \<or> (\<exists>res c. json_value r = Some res \<and> response_content res = Inr (PyStr c)
                \<and> decode w c = None)"
  shows "classify_text_with_api w text =
           ([Post (build_prompt text),
             StErrorExn (lit ''Error calling the Groq API: '') JSONDecodeError],
            PyDict [(lit ''prediction'', PyStr (lit ''Error'')),
                    (lit ''real_confidence'', PyFloat (Finite 0)),
                    (lit ''fake_confidence'', PyFloat (Finite 0))])"
proof -
  have ok: "\<not> (400 \<le> status_code r \<and> status_code r < 600)"
    using assms(2) by simp
  from assms(3) have "classify_text_with_api w text =
           ([Post (build_prompt text),
             StErrorExn (lit ''Error calling the Groq API: '') JSONDecodeError],
            error_result)"
  proof
    assume "json_value r = None"
    with assms(1) ok show ?thesis
      by (intro classify_first_Break attempt_no_body)
  next
    assume "\<exists>res c. json_value r = Some res \<and> response_content res = Inr (PyStr c)
                \<and> decode w c = None"
    then obtain res c where res: "json_value r = Some res"
      and c: "response_content res = Inr (PyStr c)" "decode w c = None"
      by blast
    from assms(1) ok res read_result_undecodable [OF c] show ?thesis
      by (intro classify_first_Break attempt_body_raises)
  qed
  then show ?thesis by (simp add: error_result_def)
qed

text \<open>
  The runs for a body that does not decode and for a content that is plain prose.
\<close>

theorem undecodable_response_gives_error_witness:
  "classify_text_with_api (always (http_response 200 None) decoder_table) (lit ''Rain'') =
     ([Post (build_prompt (lit ''Rain'')),
       StErrorExn (lit ''Error calling the Groq API: '') JSONDecodeError],
      PyDict [(lit ''prediction'', PyStr (lit ''Error'')),
              (lit ''real_confidence'', PyFloat (Finite 0)),
              (lit ''fake_confidence'', PyFloat (Finite 0))])
   \<and> classify_text_with_api
       (always (http_response 200 (Some (completion (PyStr (lit ''Sorry, I cannot.'')))))
          decoder_table) (lit ''Rain'') =
     ([Post (build_prompt (lit ''Rain'')),
       StErrorExn (lit ''Error calling the Groq API: '') JSONDecodeError],
      PyDict [(lit ''prediction'', PyStr (lit ''Error'')),
              (lit ''real_confidence'', PyFloat (Finite 0)),
              (lit ''fake_confidence'', PyFloat (Finite 0))])"
  using undecodable_response_gives_error [of "always (http_response 200 None) decoder_table"
          "lit ''Rain''" "\<lparr>status_code = 200, json_value = None\<rparr>"]
        undecodable_response_gives_error
          [of "always (http_response 200 (Some (completion (PyStr (lit ''Sorry, I cannot.'')))))
                 decoder_table"
              "lit ''Rain''"
              "\<lparr>status_code = 200,
                json_value = Some (completion (PyStr (lit ''Sorry, I cannot.'')))\<rparr>"]
  by (simp add: always_def http_response_def completion_content decoder_table_def
        fake_text_def maybe_text_def lit_def)

text \<open>
  Claim C6. When the response has status 200 and the content of its first choice is the
  text \<open>{"prediction":"Fake","real_confidence":0.1,"fake_confidence":0.9}\<close>, which the
  decoder reads as the dict of these three fields, the classifier returns this dict
  unchanged: \<open>prediction\<close> is \<open>Fake\<close>, \<open>real_confidence\<close> is 0.1 and
  \<open>fake_confidence\<close> is 0.9.
\<close>

theorem round_trip_fake:
  assumes "requests_post w (build_prompt text) 0 = Inr r" and "status_code r = 200"
    and "json_value r = Some res"
    and "response_content res = Inr (PyStr fake_text)"
    and "decode w fake_text = Some fake_result"
  shows "classify_text_with_api w text = ([Post (build_prompt text)], fake_result)
         \<and> getitem_str (snd (classify_text_with_api w text)) (lit ''prediction'')
             = Inr (PyStr (lit ''Fake''))
         \<and> getitem_str (snd (classify_text_with_api w text)) (lit ''real_confidence'')
             = Inr (PyFloat (Finite 0.1))
         \<and> getitem_str (snd (classify_text_with_api w text)) (lit ''fake_confidence'')
             = Inr (PyFloat (Finite 0.9))"
proof -
  have ok: "\<not> (400 \<le> status_code r \<and> status_code r < 600)"
    using assms(2) by simp
  from assms(1) ok assms(3) read_result_decoded [OF assms(4,5)]
  have "classify_text_with_api w text = ([Post (build_prompt text)], fake_result)"
    by (intro classify_first_Return attempt_body_returns)
  then show ?thesis by (simp add: fake_result_def lit_def)
qed

text \<open>
  The run against an endpoint that answers with this completion.
\<close>

theorem round_trip_fake_witness:
  "classify_text_with_api
     (always (http_response 200 (Some (completion (PyStr fake_text)))) decoder_table)
     (lit ''The moon is made of cheese.'')
   = ([Post (build_prompt (lit ''The moon is made of cheese.''))], fake_result)"
  using round_trip_fake
          [of "always (http_response 200 (Some (completion (PyStr fake_text)))) decoder_table"
              "lit ''The moon is made of cheese.''"
              "\<lparr>status_code = 200, json_value = Some (completion (PyStr fake_text))\<rparr>"
              "completion (PyStr fake_text)"]
  by (simp add: always_def http_response_def completion_def response_content_def try_then_def
        index_of_def decoder_table_def lit_def)

text \<open>
  Claim C7. For every URL \<open>extract_text_from_url\<close> returns a string. When the
  constructor, \<open>download()\<close> or \<open>parse()\<close> raises, whichever is first, the string is
  \<open>Error fetching URL: \<close> followed by the text of that exception. When the three calls
  succeed it is the first 2000 characters of the article text: a prefix of that text, of
  length at most 2000. One of the two is always the case.
\<close>

theorem extract_text_from_url_stages:
  "(\<forall>d. Article lib url = Inl d \<longrightarrow>
       extract_text_from_url lib url = lit ''Error fetching URL: '' @ d)
   \<and> (\<forall>a d. Article lib url = Inr a \<and> download lib a = Inl d \<longrightarrow>
       extract_text_from_url lib url = lit ''Error fetching URL: '' @ d)
   \<and> (\<forall>a b d. Article lib url = Inr a \<and> download lib a = Inr b \<and> parse lib b = Inl d \<longrightarrow>
       extract_text_from_url lib url = lit ''Error fetching URL: '' @ d)
   \<and> (\<forall>a b c. Article lib url = Inr a \<and> download lib a = Inr b \<and> parse lib b = Inr c \<longrightarrow>
       extract_text_from_url lib url = take 2000 (article_text lib c)
     \<and> prefix (extract_text_from_url lib url) (article_text lib c)
     \<and> length (extract_text_from_url lib url) \<le> 2000)
   \<and> ((\<exists>d. extract_text_from_url lib url = lit ''Error fetching URL: '' @ d)
      \<or> (\<exists>a b c. Article lib url = Inr a \<and> download lib a = Inr b \<and> parse lib b = Inr c
            \<and> extract_text_from_url lib url = take 2000 (article_text lib c)))"
proof (intro conjI allI impI)
  show "(\<exists>d. extract_text_from_url lib url = lit ''Error fetching URL: '' @ d)
      \<or> (\<exists>a b c. Article lib url = Inr a \<and> download lib a = Inr b \<and> parse lib b = Inr c
            \<and> extract_text_from_url lib url = take 2000 (article_text lib c))"
  proof (cases "Article lib url")
    case (Inl d)
    then show ?thesis by (simp add: extract_text_from_url_def fetch_article_def try_then_def)
  next
    case a: (Inr a)
    show ?thesis
    proof (cases "download lib a")
      case (Inl d)
      with a show ?thesis by (simp add: extract_text_from_url_def fetch_article_def try_then_def)
    next
      case b: (Inr b)
      show ?thesis
      proof (cases "parse lib b")
        case (Inl d)
        with a b show ?thesis
          by (simp add: extract_text_from_url_def fetch_article_def try_then_def)
      next
        case (Inr c)
        with a b show ?thesis
          by (simp add: extract_text_from_url_def fetch_article_def try_then_def)
      qed
    qed
  qed
qed (simp_all add: extract_text_from_url_def fetch_article_def try_then_def take_is_prefix)

text \<open>
  The extraction with a library that fails in the constructor, in \<open>download()\<close>, in
  \<open>parse()\<close>, and with one that does not fail.
\<close>

theorem extract_text_from_url_stages_witness:
  "extract_text_from_url (failing_library 0) (lit ''x'') = lit ''Error fetching URL: invalid URL''
   \<and> extract_text_from_url (failing_library 1) (lit ''x'')
       = lit ''Error fetching URL: download failed''
   \<and> extract_text_from_url (failing_library 2) (lit ''x'')
       = lit ''Error fetching URL: You must download() an article first''
   \<and> extract_text_from_url (failing_library 3) (lit ''x'') = lit ''Text of x''"
proof -
  have a: "extract_text_from_url (failing_library 0) (lit ''x'')
      = lit ''Error fetching URL: invalid URL''"
    using extract_text_from_url_stages [of "failing_library 0" "lit ''x''"]
    by (simp add: failing_library_def lit_def)
  have b: "extract_text_from_url (failing_library 1) (lit ''x'')
      = lit ''Error fetching URL: download failed''"
    using extract_text_from_url_stages [of "failing_library 1" "lit ''x''"]
    by (simp add: failing_library_def lit_def)
  have c: "extract_text_from_url (failing_library 2) (lit ''x'')
      = lit ''Error fetching URL: You must download() an article first''"
    using extract_text_from_url_stages [of "failing_library 2" "lit ''x''"]
    by (simp add: failing_library_def lit_def)
  have d: "extract_text_from_url (failing_library 3) (lit ''x'') = lit ''Text of x''"
    using extract_text_from_url_stages [of "failing_library 3" "lit ''x''"]
    by (simp add: failing_library_def lit_def)
  from a b c d show ?thesis by simp
qed

text \<open>
  Claim C8. In URL mode, for an input that is not blank, the run stops before the
  classifier is called (no request is sent) exactly when the string returned by
  \<open>extract_text_from_url\<close> contains \<open>Error\<close>. So it stops for every URL whose fetch
  fails, and it also stops for every article fetched successfully whose extracted text,
  the first 2000 characters, contains \<open>Error\<close>.
\<close>

theorem url_mode_aborts_on_error_substring:
  assumes "\<not> (user_input = [] \<or> strip user_input = [])"
  shows "(snd (analyze lib w URL user_input) = None
            \<longleftrightarrow> sublist (lit ''Error'') (extract_text_from_url lib user_input))
       \<and> (posts (fst (analyze lib w URL user_input)) = []
            \<longleftrightarrow> sublist (lit ''Error'') (extract_text_from_url lib user_input))
       \<and> (sublist (lit ''Error'') (extract_text_from_url lib user_input) \<longrightarrow>
            analyze lib w URL user_input
              = ([StError (extract_text_from_url lib user_input), StStop], None))
       \<and> (\<forall>d. fetch_article lib user_input = Inl d \<longrightarrow>
            analyze lib w URL user_input
              = ([StError (lit ''Error fetching URL: '' @ d), StStop], None))
       \<and> (\<forall>article. fetch_article lib user_input = Inr article
              \<and> sublist (lit ''Error'') (take 2000 (article_text lib article)) \<longrightarrow>
            analyze lib w URL user_input
              = ([StError (take 2000 (article_text lib article)), StStop], None))"
proof -
  let ?t = "extract_text_from_url lib user_input"
  have abort: "analyze lib w URL user_input = ([StError ?t, StStop], None)"
    if "sublist (lit ''Error'') ?t"
    using assms that by (simp add: analyze_def)
  have go: "analyze lib w URL user_input
              = (fst (classify_text_with_api w ?t), Some (snd (classify_text_with_api w ?t)))"
    if "\<not> sublist (lit ''Error'') ?t"
    using assms that by (simp add: analyze_def case_prod_unfold Let_def)
  have 1: "snd (analyze lib w URL user_input) = None \<longleftrightarrow> sublist (lit ''Error'') ?t"
    using abort go by (cases "sublist (lit ''Error'') ?t") simp_all
  have 2: "posts (fst (analyze lib w URL user_input)) = [] \<longleftrightarrow> sublist (lit ''Error'') ?t"
    using abort go classify_posts [of w ?t] by (cases "sublist (lit ''Error'') ?t") simp_all
  have 4: "analyze lib w URL user_input = ([StError (lit ''Error fetching URL: '' @ d), StStop], None)"
    if "fetch_article lib user_input = Inl d" for d
  proof -
    from that have "?t = lit ''Error fetching URL: '' @ d"
      by (simp add: extract_text_from_url_def)
    with abort error_marker_in_failure [of d] show ?thesis by simp
  qed
  have 5: "analyze lib w URL user_input = ([StError (take 2000 (article_text lib a)), StStop], None)"
    if "fetch_article lib user_input = Inr a"
      and "sublist (lit ''Error'') (take 2000 (article_text lib a))" for a
  proof -
    from that(1) have "?t = take 2000 (article_text lib a)"
      by (simp add: extract_text_from_url_def)
    with abort that(2) show ?thesis by simp
  qed
  from 1 2 abort 4 5 show ?thesis by blast
qed

text \<open>
  The runs for a page that is not found, for an article that mentions \<open>Error 53\<close>, and
  for an article without the word, for which a request is sent.
\<close>

theorem url_mode_aborts_on_error_substring_witness:
  "analyze (pages_library pages) (always (http_response 429 None) decoder_table) URL
     (lit ''https://example.org/gone'')
   = ([StError (lit ''Error fetching URL: Article download() failed on URL https://example.org/gone''),
       StStop], None)
   \<and> analyze (pages_library pages) (always (http_response 429 None) decoder_table) URL
     (lit ''https://example.org/recall'')
   = ([StError (lit ''The maker blamed the recall on a software fault: Error 53 bricked the phones.''),
       StStop], None)
   \<and> posts (fst (analyze (pages_library pages) (always (http_response 429 None) decoder_table) URL
     (lit ''https://example.org/weather''))) \<noteq> []"
proof -
  let ?lib = "pages_library pages"
  let ?w = "always (http_response 429 None) decoder_table"
  have s: "\<not> (lit u = [] \<or> strip (lit u) = [])"
    if "u = ''https://example.org/gone'' \<or> u = ''https://example.org/recall''
        \<or> u = ''https://example.org/weather''" for u
    using that by (auto simp: strip_def is_space_def lit_def)
  have gone: "fetch_article ?lib (lit ''https://example.org/gone'')
      = Inl (lit ''Article download() failed on URL https://example.org/gone'')"
    by (simp add: fetch_article_def try_then_def pages_library_def pages_def lit_def)
  have recall: "fetch_article ?lib (lit ''https://example.org/recall'')
      = Inr (lit ''https://example.org/recall'',
             lit ''The maker blamed the recall on a software fault: Error 53 bricked the phones.'')"
    by (simp add: fetch_article_def try_then_def pages_library_def pages_def lit_def)
  have weather: "extract_text_from_url ?lib (lit ''https://example.org/weather'')
      = lit ''Rain is expected on Sunday.''"
    by (simp add: extract_text_from_url_def fetch_article_def try_then_def pages_library_def
          pages_def lit_def)
  have in_recall: "sublist (lit ''Error'')
      (lit ''The maker blamed the recall on a software fault: Error 53 bricked the phones.'')"
  proof -
    have "lit ''The maker blamed the recall on a software fault: Error 53 bricked the phones.''
        = lit ''The maker blamed the recall on a software fault: '' @ lit ''Error''
          @ lit '' 53 bricked the phones.''"
      by (simp add: lit_def)
    then show ?thesis unfolding sublist_def by blast
  qed
  have shown: "take 2000 (article_text ?lib (u, lit
      ''The maker blamed the recall on a software fault: Error 53 bricked the phones.''))
      = lit ''The maker blamed the recall on a software fault: Error 53 bricked the phones.''" for u
    by (simp add: pages_library_def lit_def)
  have not_in_weather: "\<not> sublist (lit ''Error'') (lit ''Rain is expected on Sunday.'')"
    by (simp add: lit_def sublist_Cons_right)
  from url_mode_aborts_on_error_substring [OF s, of "''https://example.org/gone''" ?lib ?w] gone
  have a: "analyze ?lib ?w URL (lit ''https://example.org/gone'')
     = ([StError (lit ''Error fetching URL: Article download() failed on URL https://example.org/gone''),
         StStop], None)"
    by (simp add: lit_def)
  from url_mode_aborts_on_error_substring [OF s, of "''https://example.org/recall''" ?lib ?w]
    recall in_recall
  have b: "analyze ?lib ?w URL (lit ''https://example.org/recall'')
     = ([StError (lit ''The maker blamed the recall on a software fault: Error 53 bricked the phones.''),
         StStop], None)"
    by (simp add: shown)
  from url_mode_aborts_on_error_substring [OF s, of "''https://example.org/weather''" ?lib ?w]
    weather not_in_weather
  have c: "posts (fst (analyze ?lib ?w URL (lit ''https://example.org/weather''))) \<noteq> []"
    by simp
  from a b c show ?thesis by simp
qed

text \<open>
  Claim C9. When the response has status 200 and its decoded body is falsy, does not
  contain \<open>choices\<close>, or has an empty list of choices, the classifier shows the message
  \<open>API response was empty or malformed.\<close> and returns, in that same attempt (one request,
  no retry), the dict with \<open>prediction\<close> \<open>Error\<close>, \<open>real_confidence\<close> \<open>0.0\<close> and
  \<open>fake_confidence\<close> \<open>0.0\<close>.
\<close>

theorem empty_or_malformed_body:
  assumes "requests_post w (build_prompt text) 0 = Inr r" and "status_code r = 200"
    and "json_value r = Some res"
    and "\<not> truthy res \<or> py_in (lit ''choices'') res = Inr False
         \<or> getitem_str res (lit ''choices'') = Inr (PyList [])"
  shows "classify_text_with_api w text =
           ([Post (build_prompt text), StError (lit ''API response was empty or malformed.'')],
            PyDict [(lit ''prediction'', PyStr (lit ''Error'')),
                    (lit ''real_confidence'', PyFloat (Finite 0)),
                    (lit ''fake_confidence'', PyFloat (Finite 0))])"
proof -
  have ok: "\<not> (400 \<le> status_code r \<and> status_code r < 600)"
    using assms(2) by simp
  from assms(1) ok assms(3) read_result_no_choices [OF assms(4)]
  have "classify_text_with_api w text =
           ([Post (build_prompt text), StError (lit ''API response was empty or malformed.'')],
            error_result)"
    by (intro classify_first_Return attempt_body_returns)
  then show ?thesis by (simp add: error_result_def)
qed

text \<open>
  The runs for the bodies \<open>{}\<close>, \<open>{"error": "overloaded"}\<close> and \<open>{"choices": []}\<close>.
\<close>

theorem empty_or_malformed_body_witness:
  "classify_text_with_api (always (http_response 200 (Some (PyDict []))) decoder_table) (lit ''Rain'') =
     ([Post (build_prompt (lit ''Rain'')), StError (lit ''API response was empty or malformed.'')],
      PyDict [(lit ''prediction'', PyStr (lit ''Error'')),
              (lit ''real_confidence'', PyFloat (Finite 0)),
              (lit ''fake_confidence'', PyFloat (Finite 0))])
   \<and> classify_text_with_api
       (always (http_response 200 (Some (PyDict [(lit ''error'', PyStr (lit ''overloaded''))])))
          decoder_table) (lit ''Rain'') =
     ([Post (build_prompt (lit ''Rain'')), StError (lit ''API response was empty or malformed.'')],
      PyDict [(lit ''prediction'', PyStr (lit ''Error'')),
              (lit ''real_confidence'', PyFloat (Finite 0)),
              (lit ''fake_confidence'', PyFloat (Finite 0))])
   \<and> classify_text_with_api
       (always (http_response 200 (Some (PyDict [(lit ''choices'', PyList [])])))
          decoder_table) (lit ''Rain'') =
     ([Post (build_prompt (lit ''Rain'')), StError (lit ''API response was empty or malformed.'')],
      PyDict [(lit ''prediction'', PyStr (lit ''Error'')),
              (lit ''real_confidence'', PyFloat (Finite 0)),
              (lit ''fake_confidence'', PyFloat (Finite 0))])"
  using empty_or_malformed_body [of "always (http_response 200 (Some (PyDict []))) decoder_table"
          "lit ''Rain''" "\<lparr>status_code = 200, json_value = Some (PyDict [])\<rparr>" "PyDict []"]
        empty_or_malformed_body
          [of "always (http_response 200 (Some (PyDict [(lit ''error'', PyStr (lit ''overloaded''))])))
                 decoder_table"
              "lit ''Rain''"
              "\<lparr>status_code = 200,
                json_value = Some (PyDict [(lit ''error'', PyStr (lit ''overloaded''))])\<rparr>"
              "PyDict [(lit ''error'', PyStr (lit ''overloaded''))]"]
        empty_or_malformed_body
          [of "always (http_response 200 (Some (PyDict [(lit ''choices'', PyList [])])))
                 decoder_table"
              "lit ''Rain''"
              "\<lparr>status_code = 200, json_value = Some (PyDict [(lit ''choices'', PyList [])])\<rparr>"
              "PyDict [(lit ''choices'', PyList [])]"]
  by (simp add: always_def http_response_def lit_def)

text \<open>
  Claim C10. When every attempt yields status 429, the classifier sleeps after each of
  them, the third included: the last thing it does before returning the \<open>Error\<close> result
  is to sleep 8 seconds, although no request follows; the delays are 2, 4 and 8 seconds,
  14 seconds in all.
\<close>

theorem backoff_after_last_attempt:
  assumes "\<And>i. i < retries \<Longrightarrow>
             \<exists>r. requests_post w (build_prompt text) i = Inr r \<and> status_code r = 429"
  shows "sleeps (fst (classify_text_with_api w text)) = [2, 4, 8]
         \<and> sum_list (sleeps (fst (classify_text_with_api w text))) = 14
         \<and> last (fst (classify_text_with_api w text)) = Sleep 8
         \<and> posts (fst (classify_text_with_api w text)) = replicate 3 (build_prompt text)
         \<and> snd (classify_text_with_api w text) = error_result"
  using all_rate_limited_run [OF assms]
  by (simp add: classify_text_with_api_def numeral_3_eq_3)

text \<open>
  The delays of the run against an endpoint that always answers 429.
\<close>

theorem backoff_after_last_attempt_witness:
  "sleeps (fst (classify_text_with_api (always (http_response 429 None) []) [])) = [2, 4, 8]
   \<and> last (fst (classify_text_with_api (always (http_response 429 None) []) [])) = Sleep 8"
  using backoff_after_last_attempt [of "always (http_response 429 None) []" "[]"]
  by (simp add: always_def http_response_def)

end
